theory Spec2Isabelle
  imports Main "HOL-Library.Word"
begin

unbundle bit_operations_syntax

section \<open>fs/fsopen.c: filesystem access by file descriptor\<close>

text \<open>
  A shallow embedding of \<^verbatim>\<open>fs/fsopen.c\<close>: the file operations of a
  context descriptor, the system calls \<^verbatim>\<open>fspick\<close> and \<^verbatim>\<open>fsconfig\<close>, and the state
  machine \<^verbatim>\<open>vfs_fsconfig\<close> (\<^verbatim>\<open>fsopen\<close>, of which nothing is proved here, is
  left out). Kernel objects reached through pointers
  (\<^verbatim>\<open>struct fs_context\<close>, \<^verbatim>\<open>struct file\<close>) live in an explicit store; a pointer is
  an address (\<open>nat\<close>) or \<open>None\<close> for \<^verbatim>\<open>NULL\<close>. A C string is modelled by its
  characters before the terminating NUL. Functions the file calls but does not define
  are fields of an environment record: each call appends an event to the trace of the
  kernel state and takes its result from the environment. A \<^verbatim>\<open>NULL\<close> dereference and
  \<^verbatim>\<open>BUG()\<close> are the result \<open>Oops\<close>.
\<close>

subsection \<open>Constants of the kernel headers\<close>

text \<open>
  Modelled from the spec: the error numbers of \<^verbatim>\<open>include/uapi/asm-generic/errno-base.h\<close>
  and \<^verbatim>\<open>errno.h\<close>, which are not part of this file. The spec names them
  permission-denied, interrupted, bad-handle, resource-exhaustion, fault, busy,
  invalid-argument, no-data-available, message-too-large and unsupported-operation; the
  numbers are the kernel's.
\<close>

definition EPERM :: int where "EPERM = 1"
definition EINTR :: int where "EINTR = 4"
definition EBADF :: int where "EBADF = 9"
definition ENOMEM :: int where "ENOMEM = 12"
definition EFAULT :: int where "EFAULT = 14"
definition EBUSY :: int where "EBUSY = 16"
definition EINVAL :: int where "EINVAL = 22"
definition ENODATA :: int where "ENODATA = 61"
definition EMSGSIZE :: int where "EMSGSIZE = 90"
definition EOPNOTSUPP :: int where "EOPNOTSUPP = 95"

text \<open>
  Modelled from the spec: \<^verbatim>\<open>enum fsconfig_command\<close> (declared in the uapi mount header,
  not in this file), numbered in the order the spec lists the command enumeration:
  set-flag, set-string, set-binary, set-path, set-path-empty, set-fd, trigger-create,
  trigger-reconfigure. The system call receives the command as an \<^verbatim>\<open>unsigned int\<close>,
  so a command is a \<open>nat\<close> and any other number takes the \<^verbatim>\<open>default\<close> branches.
\<close>

definition fsconfig_set_flag :: nat where "fsconfig_set_flag = 0"
definition fsconfig_set_string :: nat where "fsconfig_set_string = 1"
definition fsconfig_set_binary :: nat where "fsconfig_set_binary = 2"
definition fsconfig_set_path :: nat where "fsconfig_set_path = 3"
definition fsconfig_set_path_empty :: nat where "fsconfig_set_path_empty = 4"
definition fsconfig_set_fd :: nat where "fsconfig_set_fd = 5"
definition fsconfig_cmd_create :: nat where "fsconfig_cmd_create = 6"
definition fsconfig_cmd_reconfigure :: nat where "fsconfig_cmd_reconfigure = 7"

text \<open>
  Modelled from the spec: the flag bits of \<^verbatim>\<open>fspick\<close> (close-on-exec,
  no-follow-symlink, no-automount, allow-empty-path), the lookup flags, the open flags
  and \<^verbatim>\<open>AT_FDCWD\<close>, all declared in headers outside this file; the values are the
  kernel's.
\<close>

definition FSPICK_CLOEXEC :: "32 word" where "FSPICK_CLOEXEC = 0x1"
definition FSPICK_SYMLINK_NOFOLLOW :: "32 word" where "FSPICK_SYMLINK_NOFOLLOW = 0x2"
definition FSPICK_NO_AUTOMOUNT :: "32 word" where "FSPICK_NO_AUTOMOUNT = 0x4"
definition FSPICK_EMPTY_PATH :: "32 word" where "FSPICK_EMPTY_PATH = 0x8"
definition LOOKUP_FOLLOW :: "32 word" where "LOOKUP_FOLLOW = 0x1"
definition LOOKUP_AUTOMOUNT :: "32 word" where "LOOKUP_AUTOMOUNT = 0x4"
definition LOOKUP_EMPTY :: "32 word" where "LOOKUP_EMPTY = 0x4000"
definition O_RDWR :: "32 word" where "O_RDWR = 0x2"
definition O_CLOEXEC :: "32 word" where "O_CLOEXEC = 0x80000"
definition AT_FDCWD :: int where "AT_FDCWD = - 100"

subsection \<open>Data model\<close>

text \<open>The result of a kernel function: the returned integer, or a crash.\<close>

datatype kret = Ret int | Oops

text \<open>
  Modelled from the spec: \<^verbatim>\<open>enum fs_context_phase\<close> and the context purposes
  (declared in \<^verbatim>\<open>linux/fs_context.h\<close>, not in this file): the six phases the spec
  names, which are the six this file mentions.
\<close>

datatype fs_context_phase =
    FS_CONTEXT_CREATE_PARAMS
  | FS_CONTEXT_CREATING
  | FS_CONTEXT_AWAITING_MOUNT
  | FS_CONTEXT_AWAITING_RECONF
  | FS_CONTEXT_RECONF_PARAMS
  | FS_CONTEXT_FAILED

datatype fs_context_purpose = FS_CONTEXT_FOR_USER_MOUNT | FS_CONTEXT_FOR_RECONFIGURE

text \<open>
  Modelled from the spec: \<^verbatim>\<open>struct fc_log\<close> (declared in \<^verbatim>\<open>linux/fs_context.h\<close>): a
  reference count, the unsigned counters \<open>head\<close> and \<open>tail\<close> (bytes in the kernel),
  the ownership mask \<open>need_free\<close> with one bit per slot, the owner, and the circular
  array of slots, each \<^verbatim>\<open>NULL\<close> or a message. \<^verbatim>\<open>ARRAY_SIZE(log->buffer)\<close> is the
  length of \<open>buffer\<close>.
\<close>

record fc_log =
  usage :: nat
  head :: "8 word"
  tail :: "8 word"
  need_free :: "8 word"
  owner :: nat
  buffer :: "string option list"

text \<open>
  Modelled from the spec: the fields of \<^verbatim>\<open>struct fs_context\<close> (same header) this
  file and the spec's data model name; \<open>fs_type\<close> and \<open>root\<close> are pointers.
\<close>

record fs_context =
  phase :: fs_context_phase
  fs_type :: nat
  root :: "nat option"
  purpose :: fs_context_purpose
  source :: "string option"
  log :: "fc_log option"

type_synonym uptr = nat  \<comment> \<open>a user-space address, 0 for \<^verbatim>\<open>NULL\<close>\<close>

datatype file_operations = fscontext_fops | other_fops nat

record struct_file =
  f_op :: file_operations
  private_data :: "nat option"  \<comment> \<open>\<^verbatim>\<open>struct fs_context *\<close>\<close>

text \<open>
  \<^verbatim>\<open>struct path\<close> as \<^verbatim>\<open>fspick\<close> reads it: the dentry, whether
  \<^verbatim>\<open>dentry->d_sb->s_op->reconfigure\<close> is set, and \<^verbatim>\<open>dentry->d_sb->s_type\<close>.
\<close>

record path =
  dentry :: nat
  s_op_reconfigure :: bool
  s_type :: nat

text \<open>
  The calls to functions outside this file and the stores to a file's
  \<^verbatim>\<open>private_data\<close>, in the order they are made.
\<close>

datatype event =
    Fdget int
  | Fdput int
  | Strndup_user uptr nat
  | Memdup_user_nul uptr nat
  | Kfree "string option"
  | Mutex_lock_interruptible nat
  | Mutex_unlock nat
  | Copy_to_user uptr string nat
  | User_path_at int uptr "32 word"
  | Path_put path
  | Vfs_new_fs_context nat "nat option" fs_context_purpose
  | Kzalloc_log
  | Store_private_data "nat option"
  | Put_fs_context nat
  | Anon_inode_getfd nat "32 word"

record kstate =
  fdtab :: "int \<Rightarrow> struct_file option"       \<comment> \<open>the descriptor table, as \<^verbatim>\<open>fdget\<close> reads it\<close>
  ctxs :: "nat \<Rightarrow> fs_context option"   \<comment> \<open>the contexts, by address\<close>
  trace :: "event list"

definition emit :: "event \<Rightarrow> kstate \<Rightarrow> kstate" where
  "emit ev st = st\<lparr>trace := trace st @ [ev]\<rparr>"

subsection \<open>The collaborators\<close>

text \<open>
  The functions \<^verbatim>\<open>vfs_fsconfig\<close> calls: each receives the context and returns its
  integer result with the context as it leaves it. \<open>init_fs_context\<close> is looked up
  through \<^verbatim>\<open>fc->fs_type\<close> and may be \<^verbatim>\<open>NULL\<close>.
\<close>

record vfs_ops =
  init_fs_context :: "nat \<Rightarrow> (fs_context \<Rightarrow> int \<times> fs_context) option"
  security_fs_context_alloc :: "fs_context \<Rightarrow> int \<times> fs_context"
  vfs_get_tree :: "fs_context \<Rightarrow> int \<times> fs_context"
  vfs_set_fs_source :: "fs_context \<Rightarrow> string \<Rightarrow> nat \<Rightarrow> int \<times> fs_context"
  vfs_parse_fs_option ::
    "fs_context \<Rightarrow> string option \<Rightarrow> string option \<Rightarrow> int \<Rightarrow> int \<times> fs_context"

text \<open>
  The results of the other calls: an error pointer is \<open>Inl\<close> of the (negative) error,
  \<open>vfs_new_fs_context\<close> returns the address and the contents of the new context.
\<close>

record env = vfs_ops +
  ns_capable :: bool
  strndup_user :: "uptr \<Rightarrow> nat \<Rightarrow> int + string"
  memdup_user_nul :: "uptr \<Rightarrow> nat \<Rightarrow> int + string"
  mutex_lock_interruptible :: "nat \<Rightarrow> int"
  copy_to_user :: "uptr \<Rightarrow> string \<Rightarrow> nat \<Rightarrow> nat"
  user_path_at :: "int \<Rightarrow> uptr \<Rightarrow> 32 word \<Rightarrow> int \<times> path"
  vfs_new_fs_context ::
    "nat \<Rightarrow> nat option \<Rightarrow> fs_context_purpose \<Rightarrow> int + (nat \<times> fs_context)"
  kzalloc :: bool
  fs_type_owner :: "nat \<Rightarrow> nat"
  anon_inode_getfd :: "32 word \<Rightarrow> int"

subsection \<open>\<^verbatim>\<open>fscontext_read\<close> (lines 25-66)\<close>

text \<open>\<^verbatim>\<open>err_free: if (need_free) kfree(p); return ret;\<close>\<close>

definition err_free :: "bool \<Rightarrow> string \<Rightarrow> kret \<Rightarrow> kstate \<Rightarrow> kret \<times> kstate" where
  "err_free nf p ret st = (ret, if nf then emit (Kfree (Some p)) st else st)"

definition fscontext_read ::
  "'a env_scheme \<Rightarrow> struct_file \<Rightarrow> uptr \<Rightarrow> nat \<Rightarrow> kstate \<Rightarrow> kret \<times> kstate" where
  "fscontext_read e filp ubuf len st =
    (case private_data filp of
       None \<Rightarrow> (Oops, st)
     | Some fcp \<Rightarrow>
        (case ctxs st fcp of
           None \<Rightarrow> (Oops, st)
         | Some fc \<Rightarrow>
            (let st1 = emit (Mutex_lock_interruptible fcp) st;
                 ret = mutex_lock_interruptible e fcp
             in if ret < 0 then (Ret ret, st1)
                else
                  (case log fc of
                     None \<Rightarrow> (Oops, st1)
                   | Some lg \<Rightarrow>
                      if head lg = tail lg
                      then (Ret (- ENODATA), emit (Mutex_unlock fcp) st1)
                      else
                        (let logsize = length (buffer lg);
                             index = unat (tail lg) AND (logsize - 1);
                             p = buffer lg ! index;
                             nf = (need_free lg AND push_bit index 1 \<noteq> 0);
                             lg' = lg\<lparr>buffer := (buffer lg)[index := None],
                                      need_free := need_free lg AND NOT (push_bit index 1),
                                      tail := tail lg + 1\<rparr>;
                             st2 = emit (Mutex_unlock fcp)
                                     (st1\<lparr>ctxs := (ctxs st1)(fcp := Some (fc\<lparr>log := Some lg'\<rparr>))\<rparr>)
                         in case p of
                              None \<Rightarrow> (Oops, st2)
                            | Some msg \<Rightarrow>
                               (let n = length msg
                                in if n > len then err_free nf msg (Ret (- EMSGSIZE)) st2
                                   else
                                     (let st3 = emit (Copy_to_user ubuf msg n) st2
                                      in if copy_to_user e ubuf msg n \<noteq> 0
                                         then err_free nf msg (Ret (- EFAULT)) st3
                                         else err_free nf msg (Ret (int n)) st3)))))))"

subsection \<open>\<^verbatim>\<open>fscontext_release\<close> (lines 68-77)\<close>

text \<open>
  The inode argument is not used. The result is the return value and the file. The store
  \<^verbatim>\<open>file->private_data = NULL\<close> is recorded in the trace, before the call of
  \<^verbatim>\<open>put_fs_context\<close> that follows it.
\<close>

definition fscontext_release ::
  "struct_file \<Rightarrow> kstate \<Rightarrow> int \<times> struct_file \<times> kstate" where
  "fscontext_release filp st =
    (case private_data filp of
       Some fc \<Rightarrow>
        (0, filp\<lparr>private_data := None\<rparr>,
         emit (Put_fs_context fc) (emit (Store_private_data None) st))
     | None \<Rightarrow> (0, filp, st))"

subsection \<open>\<^verbatim>\<open>fscontext_create_fd\<close> and \<^verbatim>\<open>fscontext_alloc_log\<close> (lines 88-107)\<close>

text \<open>
  \<^verbatim>\<open>anon_inode_getfd\<close> returns the new descriptor, bound to a file with this file's
  operations and the context as its private data, or a negative error.
\<close>

definition fscontext_create_fd ::
  "'a env_scheme \<Rightarrow> nat \<Rightarrow> 32 word \<Rightarrow> kstate \<Rightarrow> kret \<times> kstate" where
  "fscontext_create_fd e fc o_flags st =
    (let fd = anon_inode_getfd e (O_RDWR OR o_flags);
         st1 = emit (Anon_inode_getfd fc (O_RDWR OR o_flags)) st
     in if fd < 0 then (Ret fd, emit (Put_fs_context fc) st1)
        else (Ret fd,
              st1\<lparr>fdtab := (fdtab st1)(fd := Some \<lparr>f_op = fscontext_fops,
                                                    private_data = Some fc\<rparr>)\<rparr>))"

definition fscontext_alloc_log :: "'a env_scheme \<Rightarrow> nat \<Rightarrow> kstate \<Rightarrow> kret \<times> kstate" where
  "fscontext_alloc_log e fcp st =
    (case ctxs st fcp of
       None \<Rightarrow> (Oops, st)
     | Some fc \<Rightarrow>
        (let st1 = emit Kzalloc_log st
         in if \<not> kzalloc e
            then (Ret (- ENOMEM), st1\<lparr>ctxs := (ctxs st1)(fcp := Some (fc\<lparr>log := None\<rparr>))\<rparr>)
            else (Ret 0,
                  st1\<lparr>ctxs := (ctxs st1)(fcp := Some (fc\<lparr>log := Some
                    \<lparr>usage = 1, head = 0, tail = 0, need_free = 0,
                     owner = fs_type_owner e (fs_type fc),
                     buffer = replicate 8 None\<rparr>\<rparr>))\<rparr>)))"

subsection \<open>\<^verbatim>\<open>fspick\<close> (lines 159-212)\<close>

text \<open>Lines 175-181: the lookup flags, from the caller's flag bits.\<close>

definition fspick_lookup_flags :: "32 word \<Rightarrow> 32 word" where
  "fspick_lookup_flags flags =
    (let l0 = LOOKUP_FOLLOW OR LOOKUP_AUTOMOUNT;
         l1 = (if flags AND FSPICK_SYMLINK_NOFOLLOW \<noteq> 0 then l0 AND NOT LOOKUP_FOLLOW else l0);
         l2 = (if flags AND FSPICK_NO_AUTOMOUNT \<noteq> 0 then l1 AND NOT LOOKUP_AUTOMOUNT else l1)
     in if flags AND FSPICK_EMPTY_PATH \<noteq> 0 then l2 OR LOOKUP_EMPTY else l2)"

definition fspick ::
  "'a env_scheme \<Rightarrow> int \<Rightarrow> uptr \<Rightarrow> 32 word \<Rightarrow> kstate \<Rightarrow> kret \<times> kstate" where
  "fspick e dfd upath flags st =
    (if \<not> ns_capable e then (Ret (- EPERM), st)
     else if flags AND NOT (FSPICK_CLOEXEC OR FSPICK_SYMLINK_NOFOLLOW OR
                            FSPICK_NO_AUTOMOUNT OR FSPICK_EMPTY_PATH) \<noteq> 0
     then (Ret (- EINVAL), st)
     else
       (let lookup_flags = fspick_lookup_flags flags;
            (ret, target) = user_path_at e dfd upath lookup_flags;
            st1 = emit (User_path_at dfd upath lookup_flags) st
        in if ret < 0 then (Ret ret, st1)
           else if \<not> s_op_reconfigure target
           then (Ret (- EOPNOTSUPP), emit (Path_put target) st1)
           else
             (let st2 = emit (Vfs_new_fs_context (s_type target) (Some (dentry target))
                                FS_CONTEXT_FOR_RECONFIGURE) st1
              in case vfs_new_fs_context e (s_type target) (Some (dentry target))
                        FS_CONTEXT_FOR_RECONFIGURE of
                   Inl err \<Rightarrow> (Ret err, emit (Path_put target) st2)
                 | Inr (fc, new) \<Rightarrow>
                    (let st3 = st2\<lparr>ctxs := (ctxs st2)(fc := Some
                                   (new\<lparr>phase := FS_CONTEXT_RECONF_PARAMS\<rparr>))\<rparr>
                     in case fscontext_alloc_log e fc st3 of
                          (Oops, st4) \<Rightarrow> (Oops, st4)
                        | (Ret r, st4) \<Rightarrow>
                           if r < 0
                           then (Ret r, emit (Path_put target) (emit (Put_fs_context fc) st4))
                           else fscontext_create_fd e fc
                                  (if flags AND FSPICK_CLOEXEC \<noteq> 0 then O_CLOEXEC else 0)
                                  (emit (Path_put target) st4)))))"

subsection \<open>\<^verbatim>\<open>vfs_fsconfig\<close> (lines 218-291)\<close>

text \<open>
  Lines 227-248: a context awaiting reconfiguration is reinitialised first. \<open>Inl\<close> is
  the early return with the context marked failed.
\<close>

definition vfs_fsconfig_reinit ::
  "'a vfs_ops_scheme \<Rightarrow> fs_context \<Rightarrow> (int \<times> fs_context) + fs_context" where
  "vfs_fsconfig_reinit e fc =
    (if phase fc = FS_CONTEXT_AWAITING_RECONF then
       (let (ret, fc1) = (case init_fs_context e (fs_type fc) of
                            Some init \<Rightarrow> init fc
                          | None \<Rightarrow> (0, fc))
        in if ret < 0 then Inl (ret, fc1\<lparr>phase := FS_CONTEXT_FAILED\<rparr>)
           else
             (let (ret, fc2) = security_fs_context_alloc e fc1
              in if ret < 0 then Inl (ret, fc2\<lparr>phase := FS_CONTEXT_FAILED\<rparr>)
                 else Inr (fc2\<lparr>phase := FS_CONTEXT_RECONF_PARAMS\<rparr>)))
     else Inr fc)"

text \<open>
  Lines 260-265, the body shared by \<^verbatim>\<open>fsconfig_set_flag\<close> and
  \<^verbatim>\<open>fsconfig_set_binary\<close>, into which \<^verbatim>\<open>fsconfig_set_string\<close> falls through.
\<close>

definition vfs_fsconfig_option ::
  "'a vfs_ops_scheme \<Rightarrow> fs_context \<Rightarrow> string option \<Rightarrow> string option \<Rightarrow> int
    \<Rightarrow> kret \<times> fs_context" where
  "vfs_fsconfig_option e fc key value aux =
    (if phase fc \<noteq> FS_CONTEXT_CREATE_PARAMS \<and> phase fc \<noteq> FS_CONTEXT_RECONF_PARAMS
     then (Ret (- EBUSY), fc)
     else apfst Ret (vfs_parse_fs_option e fc key value aux))"

text \<open>Lines 250-290: the switch on the command.\<close>

definition vfs_fsconfig_switch ::
  "'a vfs_ops_scheme \<Rightarrow> fs_context \<Rightarrow> nat \<Rightarrow> string option \<Rightarrow> string option \<Rightarrow> int
    \<Rightarrow> kret \<times> fs_context" where
  "vfs_fsconfig_switch e fc cmd key value aux =
    (if cmd = fsconfig_set_string then
       (if phase fc \<noteq> FS_CONTEXT_CREATE_PARAMS \<and> phase fc \<noteq> FS_CONTEXT_RECONF_PARAMS
        then (Ret (- EBUSY), fc)
        else
          (case key of
             None \<Rightarrow> (Oops, fc)
           | Some k \<Rightarrow>
              if k = ''source''
              then (case value of
                      None \<Rightarrow> (Oops, fc)
                    | Some v \<Rightarrow> apfst Ret (vfs_set_fs_source e fc v (length v)))
              else vfs_fsconfig_option e fc key value aux))
     else if cmd = fsconfig_set_flag \<or> cmd = fsconfig_set_binary then
       vfs_fsconfig_option e fc key value aux
     else if cmd = fsconfig_set_path \<or> cmd = fsconfig_set_path_empty \<or> cmd = fsconfig_set_fd then
       (if phase fc \<noteq> FS_CONTEXT_CREATE_PARAMS \<and> phase fc \<noteq> FS_CONTEXT_RECONF_PARAMS
        then (Ret (- EBUSY), fc)
        else (Oops, fc))
     else if cmd = fsconfig_cmd_create then
       (if phase fc \<noteq> FS_CONTEXT_CREATE_PARAMS then (Ret (- EBUSY), fc)
        else
          (let (ret, fc1) = vfs_get_tree e (fc\<lparr>phase := FS_CONTEXT_CREATING\<rparr>)
           in if ret = 0 then (Ret ret, fc1\<lparr>phase := FS_CONTEXT_AWAITING_MOUNT\<rparr>)
              else (Ret ret, fc1\<lparr>phase := FS_CONTEXT_FAILED\<rparr>)))
     else (Ret (- EOPNOTSUPP), fc))"

definition vfs_fsconfig ::
  "'a vfs_ops_scheme \<Rightarrow> fs_context \<Rightarrow> nat \<Rightarrow> string option \<Rightarrow> string option \<Rightarrow> int
    \<Rightarrow> kret \<times> fs_context" where
  "vfs_fsconfig e fc cmd key value aux =
    (case vfs_fsconfig_reinit e fc of
       Inl (ret, fc') \<Rightarrow> (Ret ret, fc')
     | Inr fc' \<Rightarrow> vfs_fsconfig_switch e fc' cmd key value aux)"

subsection \<open>\<^verbatim>\<open>fsconfig\<close> (lines 336-443)\<close>

text \<open>Lines 352-381: the shape of the arguments; \<open>Some\<close> is the early return.\<close>

definition fsconfig_shape :: "nat \<Rightarrow> uptr \<Rightarrow> uptr \<Rightarrow> int \<Rightarrow> int option" where
  "fsconfig_shape cmd ukey uvalue aux =
    (if cmd = fsconfig_set_flag then
       (if ukey = 0 \<or> uvalue \<noteq> 0 \<or> aux \<noteq> 0 then Some (- EINVAL) else None)
     else if cmd = fsconfig_set_string then
       (if ukey = 0 \<or> uvalue = 0 \<or> aux \<noteq> 0 then Some (- EINVAL) else None)
     else if cmd = fsconfig_set_binary then
       (if ukey = 0 \<or> uvalue = 0 \<or> aux \<le> 0 \<or> aux > 1024 * 1024
        then Some (- EINVAL) else None)
     else if cmd = fsconfig_set_path \<or> cmd = fsconfig_set_path_empty then
       (if ukey = 0 \<or> uvalue = 0 \<or> (aux \<noteq> AT_FDCWD \<and> aux < 0)
        then Some (- EINVAL) else None)
     else if cmd = fsconfig_set_fd then
       (if ukey = 0 \<or> uvalue \<noteq> 0 \<or> aux < 0 then Some (- EINVAL) else None)
     else if cmd = fsconfig_cmd_create \<or> cmd = fsconfig_cmd_reconfigure then
       (if ukey \<noteq> 0 \<or> uvalue \<noteq> 0 \<or> aux \<noteq> 0 then Some (- EINVAL) else None)
     else Some (- EOPNOTSUPP))"

text \<open>The exits \<^verbatim>\<open>out_f\<close> and \<^verbatim>\<open>out_key\<close> (lines 438-442).\<close>

definition out_f :: "int \<Rightarrow> kret \<Rightarrow> kstate \<Rightarrow> kret \<times> kstate" where
  "out_f fd ret st = (ret, emit (Fdput fd) st)"

definition out_key :: "int \<Rightarrow> string option \<Rightarrow> kret \<Rightarrow> kstate \<Rightarrow> kret \<times> kstate" where
  "out_key fd key ret st = out_f fd ret (emit (Kfree key) st)"

text \<open>
  Lines 424-437: under the context's lock, \<^verbatim>\<open>vfs_fsconfig\<close> runs on the context the
  file points to; then the copy of a string or binary value is freed. A crash inside
  returns at once.
\<close>

definition fsconfig_locked ::
  "'a env_scheme \<Rightarrow> int \<Rightarrow> nat option \<Rightarrow> nat \<Rightarrow> string option \<Rightarrow> string option \<Rightarrow> int
    \<Rightarrow> kstate \<Rightarrow> kret \<times> kstate" where
  "fsconfig_locked e fd fc cmd key value aux st =
    (case fc of
       None \<Rightarrow> (Oops, st)
     | Some fcp \<Rightarrow>
        (let st1 = emit (Mutex_lock_interruptible fcp) st;
             ret = mutex_lock_interruptible e fcp;
             (res, st2) =
               (if ret = 0 then
                  (case ctxs st1 fcp of
                     None \<Rightarrow> (Oops, st1)
                   | Some c \<Rightarrow>
                      (case vfs_fsconfig e c cmd key value aux of
                         (Oops, c') \<Rightarrow> (Oops, st1\<lparr>ctxs := (ctxs st1)(fcp := Some c')\<rparr>)
                       | (Ret r, c') \<Rightarrow>
                          (Ret r, emit (Mutex_unlock fcp)
                                    (st1\<lparr>ctxs := (ctxs st1)(fcp := Some c')\<rparr>))))
                else (Ret ret, st1))
         in case res of
              Oops \<Rightarrow> (Oops, st2)
            | Ret r \<Rightarrow>
               out_key fd key (Ret r)
                 (if cmd = fsconfig_set_string \<or> cmd = fsconfig_set_binary
                  then emit (Kfree value) st2 else st2)))"

text \<open>Lines 400-422: the value is copied in, by the command's kind.\<close>

definition fsconfig_value ::
  "'a env_scheme \<Rightarrow> int \<Rightarrow> nat option \<Rightarrow> nat \<Rightarrow> string option \<Rightarrow> uptr \<Rightarrow> int
    \<Rightarrow> kstate \<Rightarrow> kret \<times> kstate" where
  "fsconfig_value e fd fc cmd key uvalue aux st =
    (if cmd = fsconfig_set_string then
       (case strndup_user e uvalue 256 of
          Inl err \<Rightarrow> out_key fd key (Ret err) (emit (Strndup_user uvalue 256) st)
        | Inr v \<Rightarrow>
           fsconfig_locked e fd fc cmd key (Some v) aux (emit (Strndup_user uvalue 256) st))
     else if cmd = fsconfig_set_binary then
       (case memdup_user_nul e uvalue (nat aux) of
          Inl err \<Rightarrow> out_key fd key (Ret err) (emit (Memdup_user_nul uvalue (nat aux)) st)
        | Inr v \<Rightarrow>
           fsconfig_locked e fd fc cmd key (Some v) aux
             (emit (Memdup_user_nul uvalue (nat aux)) st))
     else if cmd = fsconfig_set_path \<or> cmd = fsconfig_set_path_empty \<or> cmd = fsconfig_set_fd
     then out_key fd key (Ret (- EOPNOTSUPP)) st
     else fsconfig_locked e fd fc cmd key None aux st)"

definition fsconfig ::
  "'a env_scheme \<Rightarrow> int \<Rightarrow> nat \<Rightarrow> uptr \<Rightarrow> uptr \<Rightarrow> int \<Rightarrow> kstate \<Rightarrow> kret \<times> kstate" where
  "fsconfig e fd cmd ukey uvalue aux st =
    (if fd < 0 then (Ret (- EINVAL), st)
     else
       (case fsconfig_shape cmd ukey uvalue aux of
          Some err \<Rightarrow> (Ret err, st)
        | None \<Rightarrow>
           (let st1 = emit (Fdget fd) st
            in case fdtab st fd of
                 None \<Rightarrow> (Ret (- EBADF), st1)
               | Some f \<Rightarrow>
                  if f_op f \<noteq> fscontext_fops then out_f fd (Ret (- EINVAL)) st1
                  else
                    (let fc = private_data f
                     in if ukey \<noteq> 0 then
                          (case strndup_user e ukey 256 of
                             Inl err \<Rightarrow> out_f fd (Ret err) (emit (Strndup_user ukey 256) st1)
                           | Inr k \<Rightarrow>
                              fsconfig_value e fd fc cmd (Some k) uvalue aux
                                (emit (Strndup_user ukey 256) st1))
                        else fsconfig_value e fd fc cmd None uvalue aux st1))))"

subsection \<open>Example contexts and environments\<close>

text \<open>Concrete inputs on which the theorems below are evaluated.\<close>

definition fc_in :: "fs_context_phase \<Rightarrow> fs_context" where
  "fc_in p = \<lparr>phase = p, fs_type = 1, root = None, purpose = FS_CONTEXT_FOR_USER_MOUNT,
              source = None, log = None\<rparr>"

text \<open>
  A legacy driver (no \<^verbatim>\<open>init_fs_context\<close>) with collaborators that all succeed;
  setting the source records it in the context.
\<close>

definition env_ok :: env where
  "env_ok =
    \<lparr>init_fs_context = (\<lambda>t. None),
     security_fs_context_alloc = (\<lambda>fc. (0, fc)),
     vfs_get_tree = (\<lambda>fc. (0, fc)),
     vfs_set_fs_source = (\<lambda>fc v n. (0, fc\<lparr>source := Some v\<rparr>)),
     vfs_parse_fs_option = (\<lambda>fc k v a. (0, fc)),
     ns_capable = True,
     strndup_user = (\<lambda>p n. Inr ''ro''),
     memdup_user_nul = (\<lambda>p n. Inr ''blob''),
     mutex_lock_interruptible = (\<lambda>m. 0),
     copy_to_user = (\<lambda>p s n. 0),
     user_path_at = (\<lambda>dfd p l. (0, \<lparr>dentry = 7, s_op_reconfigure = False, s_type = 1\<rparr>)),
     vfs_new_fs_context = (\<lambda>t d p. Inr (5, fc_in FS_CONTEXT_CREATE_PARAMS)),
     kzalloc = True,
     fs_type_owner = (\<lambda>t. 0),
     anon_inode_getfd = (\<lambda>fl. 4)\<rparr>"

text \<open>The same, but the driver's \<^verbatim>\<open>init_fs_context\<close> and \<^verbatim>\<open>vfs_get_tree\<close> fail.\<close>

definition env_fail :: env where
  "env_fail = env_ok\<lparr>init_fs_context := (\<lambda>t. Some (\<lambda>fc. (- ENOMEM, fc))),
                      vfs_get_tree := (\<lambda>fc. (- ENOMEM, fc))\<rparr>"

text \<open>The same as \<open>env_ok\<close>, but the wait for the lock is interrupted.\<close>

definition env_intr :: env where
  "env_intr = env_ok\<lparr>mutex_lock_interruptible := (\<lambda>m. - EINTR)\<rparr>"

text \<open>
  A log of eight slots holding one owned message, and a context at address 5 with it.
\<close>

definition log_one :: fc_log where
  "log_one = \<lparr>usage = 1, head = 1, tail = 0, need_free = 1, owner = 0,
              buffer = [Some ''error: bad option'', None, None, None, None, None, None, None]\<rparr>"

definition log_empty :: fc_log where
  "log_empty = \<lparr>usage = 1, head = 0, tail = 0, need_free = 0, owner = 0,
                buffer = [None, None, None, None, None, None, None, None]\<rparr>"

definition file_ctx :: struct_file where
  "file_ctx = \<lparr>f_op = fscontext_fops, private_data = Some 5\<rparr>"

definition file_other :: struct_file where
  "file_other = \<lparr>f_op = other_fops 0, private_data = None\<rparr>"

text \<open>
  A kernel state: descriptor 3 is bound to the context at address 5, descriptor 4 is an
  open file of another kind, no other descriptor is open.
\<close>

definition st_with :: "fs_context \<Rightarrow> kstate" where
  "st_with fc =
    \<lparr>fdtab = (\<lambda>fd. if fd = 3 then Some file_ctx else if fd = 4 then Some file_other else None),
     ctxs = (\<lambda>a. if a = 5 then Some fc else None),
     trace = []\<rparr>"

definition fc_log :: "fc_log \<Rightarrow> fs_context" where
  "fc_log l = (fc_in FS_CONTEXT_CREATE_PARAMS)\<lparr>log := Some l\<rparr>"

section \<open>Properties\<close>

subsection \<open>Auxiliary facts\<close>

lemmas cmd_defs = fsconfig_set_flag_def fsconfig_set_string_def fsconfig_set_binary_def
  fsconfig_set_path_def fsconfig_set_path_empty_def fsconfig_set_fd_def
  fsconfig_cmd_create_def fsconfig_cmd_reconfigure_def

lemmas vfs_defs = vfs_fsconfig_def vfs_fsconfig_reinit_def vfs_fsconfig_switch_def
  vfs_fsconfig_option_def

lemma env_ok_simps:
  "init_fs_context env_ok t = None"
  "security_fs_context_alloc env_ok fc = (0, fc)"
  "vfs_get_tree env_ok fc = (0, fc)"
  "vfs_set_fs_source env_ok fc v n = (0, fc\<lparr>source := Some v\<rparr>)"
  "vfs_parse_fs_option env_ok fc k vo a = (0, fc)"
  "ns_capable env_ok"
  "mutex_lock_interruptible env_ok x = 0"
  "user_path_at env_ok dfd p l = (0, \<lparr>dentry = 7, s_op_reconfigure = False, s_type = 1\<rparr>)"
  by (simp_all add: env_ok_def)

lemma env_fail_simps:
  "init_fs_context env_fail t = Some (\<lambda>fc. (- ENOMEM, fc))"
  "security_fs_context_alloc env_fail fc = (0, fc)"
  "vfs_get_tree env_fail fc = (- ENOMEM, fc)"
  by (simp_all add: env_fail_def env_ok_def)

lemma env_intr_lock: "mutex_lock_interruptible env_intr x = - EINTR"
  by (simp add: env_intr_def)

lemma fc_in_phase: "phase (fc_in p) = p" "(fc_in p)\<lparr>phase := q\<rparr> = fc_in q"
  by (simp_all add: fc_in_def)

text \<open>The index of the slot at \<open>tail\<close>, and the test of its ownership bit.\<close>

lemma and_seven_mod: "(n::nat) AND 7 = n mod 8"
proof -
  have "n AND 7 = n AND mask 3" by (simp add: mask_eq_exp_minus_1)
  also have "\<dots> = take_bit 3 n" by (simp add: take_bit_eq_mask)
  also have "\<dots> = n mod 8" by (simp add: take_bit_eq_mod)
  finally show ?thesis .
qed

lemma need_free_bit: "((w::8 word) AND 2 ^ i = 0) = (\<not> bit w i)"
  by (simp add: and_exp_eq_0_iff_not_bit)

subsection \<open>The state machine: \<^verbatim>\<open>vfs_fsconfig\<close>\<close>

text \<open>
  C1 (as amended). Trigger-create returns 0 only when the phase is
  \<open>FS_CONTEXT_CREATE_PARAMS\<close>. In the phases Creating, AwaitingMount, ReconfParams and
  Failed it returns \<open>-EBUSY\<close> and leaves the context as it was. From CreateParams the
  tree-construction collaborator is called on the context with phase Creating; when it
  returns 0 the phase becomes AwaitingMount, otherwise the phase becomes Failed, and its
  result is returned either way. From AwaitingReconf the command fails too, but after the
  re-initialisation: when the driver's \<^verbatim>\<open>init_fs_context\<close> returns a negative result
  that very result is returned with the phase Failed, else when the security check
  returns a negative result that very result is returned with the phase Failed, and
  otherwise \<open>-EBUSY\<close> is returned with the phase ReconfParams.
\<close>

theorem trigger_create_phases:
  "(fst (vfs_fsconfig e fc fsconfig_cmd_create key value aux) = Ret 0 \<longrightarrow>
      phase fc = FS_CONTEXT_CREATE_PARAMS)
   \<and> (phase fc \<noteq> FS_CONTEXT_CREATE_PARAMS \<and> phase fc \<noteq> FS_CONTEXT_AWAITING_RECONF \<longrightarrow>
        vfs_fsconfig e fc fsconfig_cmd_create key value aux = (Ret (- EBUSY), fc))
   \<and> (phase fc = FS_CONTEXT_CREATE_PARAMS \<longrightarrow>
        vfs_fsconfig e fc fsconfig_cmd_create key value aux =
          (Ret (fst (vfs_get_tree e (fc\<lparr>phase := FS_CONTEXT_CREATING\<rparr>))),
           (snd (vfs_get_tree e (fc\<lparr>phase := FS_CONTEXT_CREATING\<rparr>)))
             \<lparr>phase := if fst (vfs_get_tree e (fc\<lparr>phase := FS_CONTEXT_CREATING\<rparr>)) = 0
                        then FS_CONTEXT_AWAITING_MOUNT else FS_CONTEXT_FAILED\<rparr>))
   \<and> (phase fc = FS_CONTEXT_AWAITING_RECONF \<longrightarrow>
        (\<forall>r1 fc1 r2 fc2.
           (case init_fs_context e (fs_type fc) of Some init \<Rightarrow> init fc | None \<Rightarrow> (0, fc)) =
             (r1, fc1) \<and>
           security_fs_context_alloc e fc1 = (r2, fc2) \<longrightarrow>
           vfs_fsconfig e fc fsconfig_cmd_create key value aux =
             (if r1 < 0 then (Ret r1, fc1\<lparr>phase := FS_CONTEXT_FAILED\<rparr>)
              else if r2 < 0 then (Ret r2, fc2\<lparr>phase := FS_CONTEXT_FAILED\<rparr>)
              else (Ret (- EBUSY), fc2\<lparr>phase := FS_CONTEXT_RECONF_PARAMS\<rparr>))))"
proof -
  let ?res = "vfs_fsconfig e fc fsconfig_cmd_create key value aux"
  let ?init = "case init_fs_context e (fs_type fc) of Some init \<Rightarrow> init fc | None \<Rightarrow> (0, fc)"
  have busy: "?res = (Ret (- EBUSY), fc)"
    if "phase fc \<noteq> FS_CONTEXT_CREATE_PARAMS" "phase fc \<noteq> FS_CONTEXT_AWAITING_RECONF"
    using that by (simp add: vfs_defs cmd_defs)
  have create: "?res =
      (Ret (fst (vfs_get_tree e (fc\<lparr>phase := FS_CONTEXT_CREATING\<rparr>))),
       (snd (vfs_get_tree e (fc\<lparr>phase := FS_CONTEXT_CREATING\<rparr>)))
         \<lparr>phase := if fst (vfs_get_tree e (fc\<lparr>phase := FS_CONTEXT_CREATING\<rparr>)) = 0
                    then FS_CONTEXT_AWAITING_MOUNT else FS_CONTEXT_FAILED\<rparr>)"
    if "phase fc = FS_CONTEXT_CREATE_PARAMS"
    using that by (simp add: vfs_defs cmd_defs split: prod.splits)
  have reconf: "?res =
      (if r1 < 0 then (Ret r1, fc1\<lparr>phase := FS_CONTEXT_FAILED\<rparr>)
       else if r2 < 0 then (Ret r2, fc2\<lparr>phase := FS_CONTEXT_FAILED\<rparr>)
       else (Ret (- EBUSY), fc2\<lparr>phase := FS_CONTEXT_RECONF_PARAMS\<rparr>))"
    if "phase fc = FS_CONTEXT_AWAITING_RECONF" "?init = (r1, fc1)"
      "security_fs_context_alloc e fc1 = (r2, fc2)"
    for r1 fc1 r2 fc2
    using that by (simp add: vfs_defs cmd_defs)
  have only: "phase fc = FS_CONTEXT_CREATE_PARAMS" if ok: "fst ?res = Ret 0"
  proof (rule ccontr)
    assume other: "phase fc \<noteq> FS_CONTEXT_CREATE_PARAMS"
    show False
    proof (cases "phase fc = FS_CONTEXT_AWAITING_RECONF")
      case True
      obtain r1 fc1 where i: "?init = (r1, fc1)" by (cases ?init)
      obtain r2 fc2 where c: "security_fs_context_alloc e fc1 = (r2, fc2)"
        by (cases "security_fs_context_alloc e fc1")
      from reconf [OF True i c] ok show False
        by (auto simp: EBUSY_def split: if_splits)
    next
      case False
      from busy [OF other False] ok show False by (simp add: EBUSY_def)
    qed
  qed
  from busy create reconf only show ?thesis by blast
qed

theorem trigger_create_phases_witness:
  "vfs_fsconfig env_ok (fc_in FS_CONTEXT_CREATE_PARAMS) fsconfig_cmd_create None None 0 =
     (Ret 0, fc_in FS_CONTEXT_AWAITING_MOUNT)
   \<and> vfs_fsconfig env_fail (fc_in FS_CONTEXT_CREATE_PARAMS) fsconfig_cmd_create None None 0 =
     (Ret (- ENOMEM), fc_in FS_CONTEXT_FAILED)
   \<and> vfs_fsconfig env_ok (fc_in FS_CONTEXT_AWAITING_MOUNT) fsconfig_cmd_create None None 0 =
     (Ret (- EBUSY), fc_in FS_CONTEXT_AWAITING_MOUNT)
   \<and> vfs_fsconfig env_fail (fc_in FS_CONTEXT_AWAITING_RECONF) fsconfig_cmd_create None None 0 =
     (Ret (- ENOMEM), fc_in FS_CONTEXT_FAILED)
   \<and> vfs_fsconfig env_ok (fc_in FS_CONTEXT_AWAITING_RECONF) fsconfig_cmd_create None None 0 =
     (Ret (- EBUSY), fc_in FS_CONTEXT_RECONF_PARAMS)
   \<and> fst (vfs_fsconfig env_fail (fc_in FS_CONTEXT_AWAITING_RECONF) fsconfig_cmd_create
            None None 0) \<noteq> Ret 0"
proof -
  let ?new = "fc_in FS_CONTEXT_CREATE_PARAMS"
  let ?old = "fc_in FS_CONTEXT_AWAITING_RECONF"
  from trigger_create_phases [of env_ok ?new None None 0]
  have a: "vfs_fsconfig env_ok ?new fsconfig_cmd_create None None 0 =
      (Ret 0, fc_in FS_CONTEXT_AWAITING_MOUNT)"
    by (simp add: fc_in_phase env_ok_simps)
  from trigger_create_phases [of env_fail ?new None None 0]
  have b: "vfs_fsconfig env_fail ?new fsconfig_cmd_create None None 0 =
      (Ret (- ENOMEM), fc_in FS_CONTEXT_FAILED)"
    by (simp add: fc_in_phase env_fail_simps ENOMEM_def)
  from trigger_create_phases [of env_ok "fc_in FS_CONTEXT_AWAITING_MOUNT" None None 0]
  have c: "vfs_fsconfig env_ok (fc_in FS_CONTEXT_AWAITING_MOUNT) fsconfig_cmd_create None None 0 =
      (Ret (- EBUSY), fc_in FS_CONTEXT_AWAITING_MOUNT)"
    by (simp add: fc_in_phase)
  have i_fail: "(case init_fs_context env_fail (fs_type ?old) of Some init \<Rightarrow> init ?old
                 | None \<Rightarrow> (0, ?old)) = (- ENOMEM, ?old)"
    by (simp add: env_fail_simps)
  have s_fail: "security_fs_context_alloc env_fail ?old = (0, ?old)"
    by (simp add: env_fail_simps)
  have i_ok: "(case init_fs_context env_ok (fs_type ?old) of Some init \<Rightarrow> init ?old
               | None \<Rightarrow> (0, ?old)) = (0, ?old)"
    by (simp add: env_ok_simps)
  have s_ok: "security_fs_context_alloc env_ok ?old = (0, ?old)"
    by (simp add: env_ok_simps)
  have ph: "phase ?old = FS_CONTEXT_AWAITING_RECONF" by (simp add: fc_in_phase)
  from trigger_create_phases [of env_fail ?old None None 0] ph i_fail s_fail
  have "vfs_fsconfig env_fail ?old fsconfig_cmd_create None None 0 =
      (if - ENOMEM < 0 then (Ret (- ENOMEM), ?old\<lparr>phase := FS_CONTEXT_FAILED\<rparr>)
       else if (0::int) < 0 then (Ret 0, ?old\<lparr>phase := FS_CONTEXT_FAILED\<rparr>)
       else (Ret (- EBUSY), ?old\<lparr>phase := FS_CONTEXT_RECONF_PARAMS\<rparr>))"
    by blast
  then have d: "vfs_fsconfig env_fail ?old fsconfig_cmd_create None None 0 =
      (Ret (- ENOMEM), fc_in FS_CONTEXT_FAILED)"
    by (simp add: ENOMEM_def fc_in_phase)
  from trigger_create_phases [of env_ok ?old None None 0] ph i_ok s_ok
  have "vfs_fsconfig env_ok ?old fsconfig_cmd_create None None 0 =
      (if (0::int) < 0 then (Ret 0, ?old\<lparr>phase := FS_CONTEXT_FAILED\<rparr>)
       else if (0::int) < 0 then (Ret 0, ?old\<lparr>phase := FS_CONTEXT_FAILED\<rparr>)
       else (Ret (- EBUSY), ?old\<lparr>phase := FS_CONTEXT_RECONF_PARAMS\<rparr>))"
    by blast
  then have e: "vfs_fsconfig env_ok ?old fsconfig_cmd_create None None 0 =
      (Ret (- EBUSY), fc_in FS_CONTEXT_RECONF_PARAMS)"
    by (simp add: fc_in_phase)
  from d have f: "fst (vfs_fsconfig env_fail ?old fsconfig_cmd_create None None 0) \<noteq> Ret 0"
    by (simp add: ENOMEM_def)
  from a b c d e f show ?thesis by simp
qed

text \<open>
  The claim as first stated fails: from AwaitingReconf, with a failing driver
  re-initialisation, trigger-create returns that error, which is not \<open>-EBUSY\<close>.
\<close>

theorem trigger_create_awaiting_reconf_counterexample:
  "phase (fc_in FS_CONTEXT_AWAITING_RECONF) \<noteq> FS_CONTEXT_CREATE_PARAMS
   \<and> vfs_fsconfig env_fail (fc_in FS_CONTEXT_AWAITING_RECONF) fsconfig_cmd_create None None 0 =
       (Ret (- ENOMEM), fc_in FS_CONTEXT_FAILED)
   \<and> Ret (- ENOMEM) \<noteq> Ret (- EBUSY)"
  by (simp add: vfs_defs cmd_defs fc_in_def env_fail_simps ENOMEM_def EBUSY_def)

text \<open>
  C2 (as amended). For the commands set-flag, set-string and set-binary: in the phases
  Creating, AwaitingMount and Failed the call returns \<open>-EBUSY\<close> and leaves the context as
  it was; and the call returns 0 only when the phase on entry is CreateParams,
  ReconfParams or AwaitingReconf (which is re-initialised to ReconfParams first).
\<close>

theorem set_param_phases:
  "cmd = fsconfig_set_flag \<or> cmd = fsconfig_set_string \<or> cmd = fsconfig_set_binary \<Longrightarrow>
   (phase fc = FS_CONTEXT_CREATING \<or> phase fc = FS_CONTEXT_AWAITING_MOUNT \<or>
      phase fc = FS_CONTEXT_FAILED \<longrightarrow>
        vfs_fsconfig e fc cmd key value aux = (Ret (- EBUSY), fc))
   \<and> (fst (vfs_fsconfig e fc cmd key value aux) = Ret 0 \<longrightarrow>
        phase fc = FS_CONTEXT_CREATE_PARAMS \<or> phase fc = FS_CONTEXT_RECONF_PARAMS \<or>
        phase fc = FS_CONTEXT_AWAITING_RECONF)"
proof -
  assume cmd: "cmd = fsconfig_set_flag \<or> cmd = fsconfig_set_string \<or> cmd = fsconfig_set_binary"
  let ?res = "vfs_fsconfig e fc cmd key value aux"
  have busy: "?res = (Ret (- EBUSY), fc)"
    if "phase fc = FS_CONTEXT_CREATING \<or> phase fc = FS_CONTEXT_AWAITING_MOUNT \<or>
        phase fc = FS_CONTEXT_FAILED"
    using that cmd by (auto simp: vfs_defs cmd_defs)
  have "phase fc = FS_CONTEXT_CREATE_PARAMS \<or> phase fc = FS_CONTEXT_RECONF_PARAMS \<or>
        phase fc = FS_CONTEXT_AWAITING_RECONF" if ok: "fst ?res = Ret 0"
  proof (cases "phase fc")
    case FS_CONTEXT_CREATING
    with busy ok show ?thesis by (simp add: EBUSY_def)
  next
    case FS_CONTEXT_AWAITING_MOUNT
    with busy ok show ?thesis by (simp add: EBUSY_def)
  next
    case FS_CONTEXT_FAILED
    with busy ok show ?thesis by (simp add: EBUSY_def)
  qed simp_all
  with busy show ?thesis by blast
qed

theorem set_param_phases_witness:
  "vfs_fsconfig env_ok (fc_in FS_CONTEXT_AWAITING_MOUNT) fsconfig_set_flag (Some ''ro'') None 0 =
     (Ret (- EBUSY), fc_in FS_CONTEXT_AWAITING_MOUNT)
   \<and> vfs_fsconfig env_ok (fc_in FS_CONTEXT_FAILED) fsconfig_set_string (Some ''source'')
       (Some ''none'') 0 = (Ret (- EBUSY), fc_in FS_CONTEXT_FAILED)"
  using set_param_phases [of fsconfig_set_flag "fc_in FS_CONTEXT_AWAITING_MOUNT" env_ok
      "Some ''ro''" None 0]
    set_param_phases [of fsconfig_set_string "fc_in FS_CONTEXT_FAILED" env_ok
      "Some ''source''" "Some ''none''" 0]
  by (simp add: fc_in_phase)

text \<open>
  The claim as first stated fails: in phase AwaitingReconf, which is neither CreateParams
  nor ReconfParams, set-flag succeeds and the phase changes.
\<close>

theorem set_param_awaiting_reconf_counterexample:
  "phase (fc_in FS_CONTEXT_AWAITING_RECONF) \<noteq> FS_CONTEXT_CREATE_PARAMS
   \<and> phase (fc_in FS_CONTEXT_AWAITING_RECONF) \<noteq> FS_CONTEXT_RECONF_PARAMS
   \<and> vfs_fsconfig env_ok (fc_in FS_CONTEXT_AWAITING_RECONF) fsconfig_set_flag (Some ''ro'') None 0 =
       (Ret 0, fc_in FS_CONTEXT_RECONF_PARAMS)
   \<and> Ret 0 \<noteq> Ret (- EBUSY)
   \<and> phase (fc_in FS_CONTEXT_RECONF_PARAMS) \<noteq> phase (fc_in FS_CONTEXT_AWAITING_RECONF)"
  by (simp add: vfs_defs cmd_defs fc_in_def env_ok_simps EBUSY_def)

text \<open>
  C3. What the code does with trigger-reconfigure: the command, with no key, no value and
  auxiliary 0, passes the shape validation of \<^verbatim>\<open>fsconfig\<close>, and \<^verbatim>\<open>vfs_fsconfig\<close> has no
  case for it: in phase ReconfParams (and in every phase but AwaitingReconf) it returns
  \<open>-EOPNOTSUPP\<close> and leaves the context as it was.
\<close>

theorem trigger_reconfigure_unsupported:
  "fsconfig_shape fsconfig_cmd_reconfigure 0 0 0 = None
   \<and> (phase fc \<noteq> FS_CONTEXT_AWAITING_RECONF \<longrightarrow>
        vfs_fsconfig e fc fsconfig_cmd_reconfigure key value aux = (Ret (- EOPNOTSUPP), fc))"
  by (simp add: vfs_defs cmd_defs fsconfig_shape_def)

theorem trigger_reconfigure_unsupported_witness:
  "vfs_fsconfig env_ok (fc_in FS_CONTEXT_RECONF_PARAMS) fsconfig_cmd_reconfigure None None 0 =
     (Ret (- EOPNOTSUPP), fc_in FS_CONTEXT_RECONF_PARAMS)
   \<and> fsconfig env_ok 3 fsconfig_cmd_reconfigure 0 0 0 (st_with (fc_in FS_CONTEXT_RECONF_PARAMS)) =
     (Ret (- EOPNOTSUPP),
      (st_with (fc_in FS_CONTEXT_RECONF_PARAMS))
        \<lparr>trace := [Fdget 3, Mutex_lock_interruptible 5, Mutex_unlock 5, Kfree None, Fdput 3]\<rparr>)"
proof -
  let ?fc = "fc_in FS_CONTEXT_RECONF_PARAMS"
  from trigger_reconfigure_unsupported [of ?fc env_ok None None 0]
  have shape: "fsconfig_shape fsconfig_cmd_reconfigure 0 0 0 = None"
    and machine: "vfs_fsconfig env_ok ?fc fsconfig_cmd_reconfigure None None 0 =
      (Ret (- EOPNOTSUPP), ?fc)"
    by (simp_all add: fc_in_phase)
  have kind: "fsconfig_cmd_reconfigure \<noteq> fsconfig_set_string"
    "fsconfig_cmd_reconfigure \<noteq> fsconfig_set_binary"
    "fsconfig_cmd_reconfigure \<noteq> fsconfig_set_path"
    "fsconfig_cmd_reconfigure \<noteq> fsconfig_set_path_empty"
    "fsconfig_cmd_reconfigure \<noteq> fsconfig_set_fd"
    by (simp_all add: cmd_defs)
  have same: "(\<lambda>a. if a = 5 then Some ?fc else None)(5 := Some ?fc) =
      (\<lambda>a. if a = (5::nat) then Some ?fc else None)"
    by (rule ext) simp
  have call: "fsconfig env_ok 3 fsconfig_cmd_reconfigure 0 0 0 (st_with ?fc) =
     (Ret (- EOPNOTSUPP),
      (st_with ?fc)\<lparr>trace := [Fdget 3, Mutex_lock_interruptible 5, Mutex_unlock 5,
                                  Kfree None, Fdput 3]\<rparr>)"
    by (simp add: fsconfig_def shape fsconfig_value_def fsconfig_locked_def kind machine
        out_key_def out_f_def emit_def st_with_def file_ctx_def env_ok_simps same)
  from machine call show ?thesis by simp
qed

text \<open>
  C7. In a parameter-accepting phase, set-string with the key \<open>source\<close> returns what the
  set-source collaborator returns for the value and its length; set-string with any
  other key, and set-flag and set-binary with any key, return what the generic option
  parser returns for the key, the value and the auxiliary.
\<close>

theorem source_routing:
  "phase fc = FS_CONTEXT_CREATE_PARAMS \<or> phase fc = FS_CONTEXT_RECONF_PARAMS \<Longrightarrow>
   vfs_fsconfig e fc fsconfig_set_string (Some ''source'') (Some v) aux =
     apfst Ret (vfs_set_fs_source e fc v (length v))
   \<and> (k \<noteq> ''source'' \<longrightarrow>
        vfs_fsconfig e fc fsconfig_set_string (Some k) value aux =
          apfst Ret (vfs_parse_fs_option e fc (Some k) value aux))
   \<and> (cmd = fsconfig_set_flag \<or> cmd = fsconfig_set_binary \<longrightarrow>
        vfs_fsconfig e fc cmd key value aux =
          apfst Ret (vfs_parse_fs_option e fc key value aux))"
  by (auto simp: vfs_defs cmd_defs)

theorem source_routing_witness:
  "vfs_fsconfig env_ok (fc_in FS_CONTEXT_CREATE_PARAMS) fsconfig_set_string (Some ''source'')
      (Some ''none'') 0 = (Ret 0, (fc_in FS_CONTEXT_CREATE_PARAMS)\<lparr>source := Some ''none''\<rparr>)
   \<and> vfs_fsconfig env_ok (fc_in FS_CONTEXT_CREATE_PARAMS) fsconfig_set_string (Some ''sourcE'')
      (Some ''none'') 0 = (Ret 0, fc_in FS_CONTEXT_CREATE_PARAMS)
   \<and> vfs_fsconfig env_ok (fc_in FS_CONTEXT_CREATE_PARAMS) fsconfig_set_binary (Some ''source'')
      (Some ''none'') 4 = (Ret 0, fc_in FS_CONTEXT_CREATE_PARAMS)
   \<and> vfs_fsconfig env_ok (fc_in FS_CONTEXT_RECONF_PARAMS) fsconfig_set_flag (Some ''source'')
      None 0 = (Ret 0, fc_in FS_CONTEXT_RECONF_PARAMS)"
  using source_routing [of "fc_in FS_CONTEXT_CREATE_PARAMS" env_ok "''none''" 0 "''sourcE''"
      "Some ''none''" fsconfig_set_binary "Some ''source''"]
    source_routing [of "fc_in FS_CONTEXT_CREATE_PARAMS" env_ok "''none''" 4 "''sourcE''"
      "Some ''none''" fsconfig_set_binary "Some ''source''"]
    source_routing [of "fc_in FS_CONTEXT_RECONF_PARAMS" env_ok "''none''" 0 "''sourcE''"
      None fsconfig_set_flag "Some ''source''"]
  by (simp add: fc_in_phase env_ok_simps)

text \<open>
  C9. From phase AwaitingReconf every command, whatever it is, first runs the driver's
  \<^verbatim>\<open>init_fs_context\<close> (when the driver has one) and then the security check. If the
  first returns a negative result, or else the second does, that result is returned and
  the phase is Failed. Otherwise the phase is set to ReconfParams and the command is
  dispatched on that context: trigger-create then fails with \<open>-EBUSY\<close> and a command
  beyond trigger-create with \<open>-EOPNOTSUPP\<close>, both leaving the phase ReconfParams.
\<close>

theorem awaiting_reconf_reinit:
  "phase fc = FS_CONTEXT_AWAITING_RECONF \<Longrightarrow>
   (case init_fs_context e (fs_type fc) of Some init \<Rightarrow> init fc | None \<Rightarrow> (0, fc)) = (r1, fc1) \<Longrightarrow>
   security_fs_context_alloc e fc1 = (r2, fc2) \<Longrightarrow>
   (r1 < 0 \<longrightarrow>
      vfs_fsconfig e fc cmd key value aux = (Ret r1, fc1\<lparr>phase := FS_CONTEXT_FAILED\<rparr>))
   \<and> (0 \<le> r1 \<and> r2 < 0 \<longrightarrow>
      vfs_fsconfig e fc cmd key value aux = (Ret r2, fc2\<lparr>phase := FS_CONTEXT_FAILED\<rparr>))
   \<and> (0 \<le> r1 \<and> 0 \<le> r2 \<longrightarrow>
      vfs_fsconfig e fc cmd key value aux =
        vfs_fsconfig e (fc2\<lparr>phase := FS_CONTEXT_RECONF_PARAMS\<rparr>) cmd key value aux
      \<and> (cmd = fsconfig_cmd_create \<longrightarrow>
           vfs_fsconfig e fc cmd key value aux =
             (Ret (- EBUSY), fc2\<lparr>phase := FS_CONTEXT_RECONF_PARAMS\<rparr>))
      \<and> (fsconfig_cmd_create < cmd \<longrightarrow>
           vfs_fsconfig e fc cmd key value aux =
             (Ret (- EOPNOTSUPP), fc2\<lparr>phase := FS_CONTEXT_RECONF_PARAMS\<rparr>)))"
proof -
  assume ph: "phase fc = FS_CONTEXT_AWAITING_RECONF"
    and init: "(case init_fs_context e (fs_type fc) of Some init \<Rightarrow> init fc
                | None \<Rightarrow> (0, fc)) = (r1, fc1)"
    and sec: "security_fs_context_alloc e fc1 = (r2, fc2)"
  let ?ready = "fc2\<lparr>phase := FS_CONTEXT_RECONF_PARAMS\<rparr>"
  have reinit: "vfs_fsconfig_reinit e fc =
      (if r1 < 0 then Inl (r1, fc1\<lparr>phase := FS_CONTEXT_FAILED\<rparr>)
       else if r2 < 0 then Inl (r2, fc2\<lparr>phase := FS_CONTEXT_FAILED\<rparr>)
       else Inr ?ready)"
    using ph init sec by (simp add: vfs_fsconfig_reinit_def)
  have again: "vfs_fsconfig e ?ready cmd key value aux =
      vfs_fsconfig_switch e ?ready cmd key value aux"
    by (simp add: vfs_fsconfig_def vfs_fsconfig_reinit_def)
  have "vfs_fsconfig e fc cmd key value aux = (Ret r1, fc1\<lparr>phase := FS_CONTEXT_FAILED\<rparr>)"
    if "r1 < 0"
    using that reinit by (simp add: vfs_fsconfig_def)
  moreover
  have "vfs_fsconfig e fc cmd key value aux = (Ret r2, fc2\<lparr>phase := FS_CONTEXT_FAILED\<rparr>)"
    if "0 \<le> r1" "r2 < 0"
    using that reinit by (simp add: vfs_fsconfig_def)
  moreover
  have run: "vfs_fsconfig e fc cmd key value aux = vfs_fsconfig e ?ready cmd key value aux"
    if "0 \<le> r1" "0 \<le> r2"
    using that reinit again by (simp add: vfs_fsconfig_def)
  moreover
  have "vfs_fsconfig e ?ready cmd key value aux = (Ret (- EBUSY), ?ready)"
    if "cmd = fsconfig_cmd_create"
    using that again by (simp add: vfs_fsconfig_switch_def cmd_defs)
  moreover
  have "vfs_fsconfig e ?ready cmd key value aux = (Ret (- EOPNOTSUPP), ?ready)"
    if "fsconfig_cmd_create < cmd"
    using that again by (simp add: vfs_fsconfig_switch_def cmd_defs)
  ultimately show ?thesis by metis
qed

theorem awaiting_reconf_reinit_witness:
  "vfs_fsconfig env_ok (fc_in FS_CONTEXT_AWAITING_RECONF) fsconfig_cmd_create None None 0 =
     (Ret (- EBUSY), fc_in FS_CONTEXT_RECONF_PARAMS)
   \<and> vfs_fsconfig env_ok (fc_in FS_CONTEXT_AWAITING_RECONF) 8 None None 0 =
     (Ret (- EOPNOTSUPP), fc_in FS_CONTEXT_RECONF_PARAMS)
   \<and> vfs_fsconfig env_fail (fc_in FS_CONTEXT_AWAITING_RECONF) fsconfig_set_flag (Some ''ro'') None 0 =
     (Ret (- ENOMEM), fc_in FS_CONTEXT_FAILED)"
proof -
  let ?fc = "fc_in FS_CONTEXT_AWAITING_RECONF"
  have ph: "phase ?fc = FS_CONTEXT_AWAITING_RECONF" by (simp add: fc_in_phase)
  have i_ok: "(case init_fs_context env_ok (fs_type ?fc) of Some init \<Rightarrow> init ?fc
                | None \<Rightarrow> (0, ?fc)) = (0, ?fc)"
    by (simp add: env_ok_simps)
  have s_ok: "security_fs_context_alloc env_ok ?fc = (0, ?fc)" by (simp add: env_ok_simps)
  have i_fail: "(case init_fs_context env_fail (fs_type ?fc) of Some init \<Rightarrow> init ?fc
                | None \<Rightarrow> (0, ?fc)) = (- ENOMEM, ?fc)"
    by (simp add: env_fail_simps)
  have s_fail: "security_fs_context_alloc env_fail ?fc = (0, ?fc)"
    by (simp add: env_fail_simps)
  have neg: "- ENOMEM < 0" by (simp add: ENOMEM_def)
  have gt: "fsconfig_cmd_create < 8" by (simp add: fsconfig_cmd_create_def)
  from awaiting_reconf_reinit [OF ph i_ok s_ok, of fsconfig_cmd_create None None 0]
  have a: "vfs_fsconfig env_ok ?fc fsconfig_cmd_create None None 0 =
      (Ret (- EBUSY), fc_in FS_CONTEXT_RECONF_PARAMS)"
    by (auto simp: fc_in_phase)
  from awaiting_reconf_reinit [OF ph i_ok s_ok, of 8 None None 0] gt
  have b: "vfs_fsconfig env_ok ?fc 8 None None 0 =
      (Ret (- EOPNOTSUPP), fc_in FS_CONTEXT_RECONF_PARAMS)"
    by (auto simp: fc_in_phase)
  from awaiting_reconf_reinit [OF ph i_fail s_fail, of fsconfig_set_flag "Some ''ro''" None 0] neg
  have c: "vfs_fsconfig env_fail ?fc fsconfig_set_flag (Some ''ro'') None 0 =
      (Ret (- ENOMEM), fc_in FS_CONTEXT_FAILED)"
    by (auto simp: fc_in_phase)
  from a b c show ?thesis by simp
qed

subsection \<open>The system call \<^verbatim>\<open>fsconfig\<close>\<close>

text \<open>
  C4 (as amended). A call to \<^verbatim>\<open>fsconfig\<close> with a non-negative descriptor and arguments
  of a valid shape, on an open descriptor whose file is not of this subsystem's kind,
  returns \<open>-EINVAL\<close>; the descriptor is looked up and released and nothing else happens:
  no key or value is copied and no lock is taken. \<open>-EBADF\<close> is what the call returns
  when the descriptor is not open.
\<close>

theorem fsconfig_foreign_descriptor:
  "0 \<le> fd \<Longrightarrow> fsconfig_shape cmd ukey uvalue aux = None \<Longrightarrow>
   (fdtab st fd = Some f \<and> f_op f \<noteq> fscontext_fops \<longrightarrow>
      fsconfig e fd cmd ukey uvalue aux st =
        (Ret (- EINVAL), st\<lparr>trace := trace st @ [Fdget fd, Fdput fd]\<rparr>))
   \<and> (fdtab st fd = None \<longrightarrow>
      fsconfig e fd cmd ukey uvalue aux st =
        (Ret (- EBADF), st\<lparr>trace := trace st @ [Fdget fd]\<rparr>))"
  by (simp add: fsconfig_def out_f_def emit_def)

theorem fsconfig_foreign_descriptor_witness:
  "fsconfig env_ok 4 fsconfig_cmd_create 0 0 0 (st_with (fc_in FS_CONTEXT_CREATE_PARAMS)) =
     (Ret (- EINVAL), (st_with (fc_in FS_CONTEXT_CREATE_PARAMS))\<lparr>trace := [Fdget 4, Fdput 4]\<rparr>)
   \<and> fsconfig env_ok 9 fsconfig_cmd_create 0 0 0 (st_with (fc_in FS_CONTEXT_CREATE_PARAMS)) =
     (Ret (- EBADF), (st_with (fc_in FS_CONTEXT_CREATE_PARAMS))\<lparr>trace := [Fdget 9]\<rparr>)"
proof -
  have sh: "fsconfig_shape fsconfig_cmd_create 0 0 0 = None"
    by (simp add: fsconfig_shape_def cmd_defs)
  show ?thesis
    using fsconfig_foreign_descriptor [OF _ sh, of 4 "st_with (fc_in FS_CONTEXT_CREATE_PARAMS)"
        file_other env_ok]
      fsconfig_foreign_descriptor [OF _ sh, of 9 "st_with (fc_in FS_CONTEXT_CREATE_PARAMS)"
        file_other env_ok]
    by (simp add: st_with_def file_other_def)
qed

text \<open>
  The claim as first stated fails: descriptor 4 is open and of another kind, and the call
  returns \<open>-EINVAL\<close>, not \<open>-EBADF\<close>.
\<close>

theorem fsconfig_foreign_descriptor_counterexample:
  "fdtab (st_with (fc_in FS_CONTEXT_CREATE_PARAMS)) 4 = Some file_other
   \<and> f_op file_other \<noteq> fscontext_fops
   \<and> fst (fsconfig env_ok 4 fsconfig_cmd_create 0 0 0 (st_with (fc_in FS_CONTEXT_CREATE_PARAMS))) =
       Ret (- EINVAL)
   \<and> Ret (- EINVAL) \<noteq> Ret (- EBADF)"
  by (simp add: fsconfig_def fsconfig_shape_def cmd_defs out_f_def st_with_def file_other_def
      EINVAL_def EBADF_def)

text \<open>
  C6. A set-binary call whose auxiliary length is 0, negative or above 1,048,576 returns
  \<open>-EINVAL\<close> with the kernel state exactly as before: the descriptor is not looked up
  and nothing is called. A length from 1 to 1,048,576, with a key and a value given,
  passes the shape validation.
\<close>

theorem set_binary_length_bounds:
  "(aux \<le> 0 \<or> 1048576 < aux \<longrightarrow>
      fsconfig e fd fsconfig_set_binary ukey uvalue aux st = (Ret (- EINVAL), st))
   \<and> (1 \<le> aux \<and> aux \<le> 1048576 \<and> ukey \<noteq> 0 \<and> uvalue \<noteq> 0 \<longrightarrow>
      fsconfig_shape fsconfig_set_binary ukey uvalue aux = None)"
  by (auto simp: fsconfig_def fsconfig_shape_def cmd_defs)

theorem set_binary_length_bounds_witness:
  "fsconfig env_ok 3 fsconfig_set_binary 1 2 1048577 (st_with (fc_in FS_CONTEXT_CREATE_PARAMS)) =
     (Ret (- EINVAL), st_with (fc_in FS_CONTEXT_CREATE_PARAMS))
   \<and> fsconfig env_ok 3 fsconfig_set_binary 1 2 0 (st_with (fc_in FS_CONTEXT_CREATE_PARAMS)) =
     (Ret (- EINVAL), st_with (fc_in FS_CONTEXT_CREATE_PARAMS))
   \<and> fsconfig env_ok 3 fsconfig_set_binary 1 2 (- 1) (st_with (fc_in FS_CONTEXT_CREATE_PARAMS)) =
     (Ret (- EINVAL), st_with (fc_in FS_CONTEXT_CREATE_PARAMS))
   \<and> fsconfig_shape fsconfig_set_binary 1 2 1048576 = None
   \<and> fsconfig_shape fsconfig_set_binary 1 2 1 = None"
  using set_binary_length_bounds [of 1048577 env_ok 3 1 2 "st_with (fc_in FS_CONTEXT_CREATE_PARAMS)"]
    set_binary_length_bounds [of 0 env_ok 3 1 2 "st_with (fc_in FS_CONTEXT_CREATE_PARAMS)"]
    set_binary_length_bounds [of "- 1" env_ok 3 1 2 "st_with (fc_in FS_CONTEXT_CREATE_PARAMS)"]
    set_binary_length_bounds [of 1048576 env_ok 3 1 2 "st_with (fc_in FS_CONTEXT_CREATE_PARAMS)"]
    set_binary_length_bounds [of 1 env_ok 3 1 2 "st_with (fc_in FS_CONTEXT_CREATE_PARAMS)"]
  by simp

subsection \<open>The system call \<^verbatim>\<open>fspick\<close>\<close>

text \<open>
  C8. When the caller is capable, the flags are valid, the path resolves and the target's
  filesystem has no \<^verbatim>\<open>reconfigure\<close> operation, \<^verbatim>\<open>fspick\<close> returns \<open>-EOPNOTSUPP\<close>; the
  contexts and the descriptor table are as before, and the only calls made are the path
  lookup and one \<^verbatim>\<open>path_put\<close> of the target: no context is constructed, no log is
  allocated.
\<close>

theorem fspick_unsupported:
  "ns_capable e \<Longrightarrow>
   flags AND NOT (FSPICK_CLOEXEC OR FSPICK_SYMLINK_NOFOLLOW OR
                  FSPICK_NO_AUTOMOUNT OR FSPICK_EMPTY_PATH) = 0 \<Longrightarrow>
   user_path_at e dfd upath (fspick_lookup_flags flags) = (ret, target) \<Longrightarrow>
   0 \<le> ret \<Longrightarrow> \<not> s_op_reconfigure target \<Longrightarrow>
   fspick e dfd upath flags st =
     (Ret (- EOPNOTSUPP),
      st\<lparr>trace := trace st @ [User_path_at dfd upath (fspick_lookup_flags flags),
                                Path_put target]\<rparr>)"
  by (simp add: fspick_def emit_def Let_def)

theorem fspick_unsupported_witness:
  "fspick env_ok 0 1 FSPICK_CLOEXEC (st_with (fc_in FS_CONTEXT_CREATE_PARAMS)) =
     (Ret (- EOPNOTSUPP),
      (st_with (fc_in FS_CONTEXT_CREATE_PARAMS))
        \<lparr>trace := [User_path_at 0 1 (LOOKUP_FOLLOW OR LOOKUP_AUTOMOUNT),
                   Path_put \<lparr>dentry = 7, s_op_reconfigure = False, s_type = 1\<rparr>]\<rparr>)"
proof -
  have lf: "fspick_lookup_flags FSPICK_CLOEXEC = LOOKUP_FOLLOW OR LOOKUP_AUTOMOUNT"
    by (simp add: fspick_lookup_flags_def FSPICK_CLOEXEC_def FSPICK_SYMLINK_NOFOLLOW_def
        FSPICK_NO_AUTOMOUNT_def FSPICK_EMPTY_PATH_def Let_def)
  have fl: "FSPICK_CLOEXEC AND NOT (FSPICK_CLOEXEC OR FSPICK_SYMLINK_NOFOLLOW OR
                  FSPICK_NO_AUTOMOUNT OR FSPICK_EMPTY_PATH) = 0"
    by (simp add: FSPICK_CLOEXEC_def FSPICK_SYMLINK_NOFOLLOW_def
        FSPICK_NO_AUTOMOUNT_def FSPICK_EMPTY_PATH_def)
  have cap: "ns_capable env_ok" by (simp add: env_ok_simps)
  have up: "user_path_at env_ok 0 1 (fspick_lookup_flags FSPICK_CLOEXEC) =
      (0, \<lparr>dentry = 7, s_op_reconfigure = False, s_type = 1\<rparr>)"
    by (simp add: env_ok_simps)
  show ?thesis
    using fspick_unsupported [OF cap fl up, of "st_with (fc_in FS_CONTEXT_CREATE_PARAMS)"]
    by (simp add: lf st_with_def)
qed

subsection \<open>The file operations\<close>

text \<open>
  C5 (as amended). A read on a context with a log first waits for the lock. If the wait
  is interrupted (a negative result), the read returns that result and nothing else
  happens: no message is popped and \<open>tail\<close> stays. If the lock is acquired: when the
  log is empty (\<open>head = tail\<close>) the read returns \<open>-ENODATA\<close> and changes no context,
  so \<open>tail\<close> stays; when the log is not empty (eight slots, a message in the slot at
  \<open>tail\<close>) the message is popped whatever the buffer length: the slot is cleared, its
  ownership bit is cleared and \<open>tail\<close> is advanced by one; if the message is longer
  than the buffer the read then returns \<open>-EMSGSIZE\<close>, copies nothing, and frees the
  message when its ownership bit was set.
\<close>

theorem read_pops_before_size_check:
  "private_data filp = Some fcp \<Longrightarrow> ctxs st fcp = Some fc \<Longrightarrow> log fc = Some lg \<Longrightarrow>
   (mutex_lock_interruptible e fcp < 0 \<longrightarrow>
      fscontext_read e filp ubuf len st =
        (Ret (mutex_lock_interruptible e fcp),
         st\<lparr>trace := trace st @ [Mutex_lock_interruptible fcp]\<rparr>))
   \<and> (0 \<le> mutex_lock_interruptible e fcp \<longrightarrow>
   (head lg = tail lg \<longrightarrow>
      fscontext_read e filp ubuf len st =
        (Ret (- ENODATA),
         st\<lparr>trace := trace st @ [Mutex_lock_interruptible fcp, Mutex_unlock fcp]\<rparr>))
   \<and> (head lg \<noteq> tail lg \<and> length (buffer lg) = 8 \<and>
        buffer lg ! (unat (tail lg) mod 8) = Some msg \<longrightarrow>
        ctxs (snd (fscontext_read e filp ubuf len st)) =
          (ctxs st)(fcp := Some (fc\<lparr>log := Some
             (lg\<lparr>buffer := (buffer lg)[unat (tail lg) mod 8 := None],
                 need_free := need_free lg AND NOT (push_bit (unat (tail lg) mod 8) 1),
                 tail := tail lg + 1\<rparr>)\<rparr>))
        \<and> (buffer lg)[unat (tail lg) mod 8 := None] ! (unat (tail lg) mod 8) = None
        \<and> (len < length msg \<longrightarrow>
             fst (fscontext_read e filp ubuf len st) = Ret (- EMSGSIZE)
             \<and> trace (snd (fscontext_read e filp ubuf len st)) =
                 trace st @ [Mutex_lock_interruptible fcp, Mutex_unlock fcp] @
                 (if bit (need_free lg) (unat (tail lg) mod 8) then [Kfree (Some msg)] else []))))"
proof -
  assume pd: "private_data filp = Some fcp" and cx: "ctxs st fcp = Some fc"
    and lg: "log fc = Some lg"
  let ?i = "unat (tail lg) mod 8"
  let ?res = "fscontext_read e filp ubuf len st"
  have interrupted: "?res =
      (Ret (mutex_lock_interruptible e fcp),
       st\<lparr>trace := trace st @ [Mutex_lock_interruptible fcp]\<rparr>)"
    if "mutex_lock_interruptible e fcp < 0"
    using that pd cx by (simp add: fscontext_read_def Let_def emit_def)
  have empty: "?res =
      (Ret (- ENODATA), st\<lparr>trace := trace st @ [Mutex_lock_interruptible fcp, Mutex_unlock fcp]\<rparr>)"
    if "0 \<le> mutex_lock_interruptible e fcp" "head lg = tail lg"
    using that pd cx lg by (simp add: fscontext_read_def Let_def emit_def)
  have popped: "ctxs (snd ?res) =
      (ctxs st)(fcp := Some (fc\<lparr>log := Some
         (lg\<lparr>buffer := (buffer lg)[?i := None],
             need_free := need_free lg AND NOT (push_bit ?i 1),
             tail := tail lg + 1\<rparr>)\<rparr>))"
    if "0 \<le> mutex_lock_interruptible e fcp"
      "head lg \<noteq> tail lg" "length (buffer lg) = 8" "buffer lg ! ?i = Some msg"
    using that pd cx lg
    by (simp add: fscontext_read_def Let_def emit_def err_free_def and_seven_mod)
  have cleared: "(buffer lg)[?i := None] ! ?i = None" if "length (buffer lg) = 8"
    using that by simp
  have too_long: "fst ?res = Ret (- EMSGSIZE) \<and>
      trace (snd ?res) = trace st @ [Mutex_lock_interruptible fcp, Mutex_unlock fcp] @
        (if bit (need_free lg) ?i then [Kfree (Some msg)] else [])"
    if "0 \<le> mutex_lock_interruptible e fcp"
      "head lg \<noteq> tail lg" "length (buffer lg) = 8" "buffer lg ! ?i = Some msg"
      "len < length msg"
    using that pd cx lg
    by (simp add: fscontext_read_def Let_def emit_def err_free_def and_seven_mod need_free_bit)
  from interrupted empty popped cleared too_long show ?thesis by blast
qed

theorem read_pops_before_size_check_witness:
  "fscontext_read env_ok file_ctx 100 0 (st_with (fc_log log_empty)) =
     (Ret (- ENODATA),
      (st_with (fc_log log_empty))\<lparr>trace := [Mutex_lock_interruptible 5, Mutex_unlock 5]\<rparr>)
   \<and> fst (fscontext_read env_ok file_ctx 100 4 (st_with (fc_log log_one))) = Ret (- EMSGSIZE)
   \<and> ctxs (snd (fscontext_read env_ok file_ctx 100 4 (st_with (fc_log log_one)))) 5 =
       Some (fc_log (log_empty\<lparr>head := 1, tail := 1\<rparr>))
   \<and> trace (snd (fscontext_read env_ok file_ctx 100 4 (st_with (fc_log log_one)))) =
       [Mutex_lock_interruptible 5, Mutex_unlock 5, Kfree (Some ''error: bad option'')]
   \<and> fst (fscontext_read env_ok file_ctx 100 4096
            (snd (fscontext_read env_ok file_ctx 100 4 (st_with (fc_log log_one))))) =
       Ret (- ENODATA)
   \<and> fscontext_read env_intr file_ctx 100 4 (st_with (fc_log log_one)) =
       (Ret (- EINTR), (st_with (fc_log log_one))\<lparr>trace := [Mutex_lock_interruptible 5]\<rparr>)"
proof -
  have pd: "private_data file_ctx = Some 5" by (simp add: file_ctx_def)
  have cx: "ctxs (st_with (fc_log l)) 5 = Some (fc_log l)" for l by (simp add: st_with_def)
  have lg: "log (fc_log l) = Some l" for l by (simp add: fc_log_def)
  have lk: "0 \<le> mutex_lock_interruptible env_ok 5" by (simp add: env_ok_simps)
  have tr: "trace (st_with c) = []" for c by (simp add: st_with_def)
  from read_pops_before_size_check [where filp = file_ctx and fcp = 5 and e = env_ok
      and st = "st_with (fc_log log_empty)" and fc = "fc_log log_empty" and lg = log_empty
      and ubuf = 100 and len = 0, OF pd cx lg] lk
  have a: "fscontext_read env_ok file_ctx 100 0 (st_with (fc_log log_empty)) =
     (Ret (- ENODATA),
      (st_with (fc_log log_empty))\<lparr>trace := [Mutex_lock_interruptible 5, Mutex_unlock 5]\<rparr>)"
    by (simp add: log_empty_def tr)
  have one: "head log_one \<noteq> tail log_one" "length (buffer log_one) = 8"
    "buffer log_one ! (unat (tail log_one) mod 8) = Some ''error: bad option''"
    "(4::nat) < length ''error: bad option''"
    "bit (need_free log_one) (unat (tail log_one) mod 8)"
    by (simp_all add: log_one_def)
  from read_pops_before_size_check [where filp = file_ctx and fcp = 5 and e = env_ok
      and st = "st_with (fc_log log_one)" and fc = "fc_log log_one" and lg = log_one
      and msg = "''error: bad option''" and ubuf = 100 and len = 4, OF pd cx lg] lk one
  have b: "fst (fscontext_read env_ok file_ctx 100 4 (st_with (fc_log log_one))) = Ret (- EMSGSIZE)"
    and c: "ctxs (snd (fscontext_read env_ok file_ctx 100 4 (st_with (fc_log log_one)))) 5 =
       Some (fc_log (log_empty\<lparr>head := 1, tail := 1\<rparr>))"
    and d: "trace (snd (fscontext_read env_ok file_ctx 100 4 (st_with (fc_log log_one)))) =
       [Mutex_lock_interruptible 5, Mutex_unlock 5, Kfree (Some ''error: bad option'')]"
    by (simp_all add: tr fc_log_def log_one_def log_empty_def)
  have drained: "head (log_empty\<lparr>head := 1, tail := 1\<rparr>) = tail (log_empty\<lparr>head := 1, tail := 1\<rparr>)"
    by simp
  from read_pops_before_size_check [where filp = file_ctx and fcp = 5 and e = env_ok
      and st = "snd (fscontext_read env_ok file_ctx 100 4 (st_with (fc_log log_one)))"
      and fc = "fc_log (log_empty\<lparr>head := 1, tail := 1\<rparr>)"
      and lg = "log_empty\<lparr>head := 1, tail := 1\<rparr>"
      and ubuf = 100 and len = 4096, OF pd c lg] lk drained
  have again: "fst (fscontext_read env_ok file_ctx 100 4096
            (snd (fscontext_read env_ok file_ctx 100 4 (st_with (fc_log log_one))))) =
       Ret (- ENODATA)"
    by simp
  have intr: "mutex_lock_interruptible env_intr 5 < 0"
    by (simp add: env_intr_lock EINTR_def)
  from read_pops_before_size_check [where filp = file_ctx and fcp = 5 and e = env_intr
      and st = "st_with (fc_log log_one)" and fc = "fc_log log_one" and lg = log_one
      and ubuf = 100 and len = 4, OF pd cx lg] intr
  have stopped: "fscontext_read env_intr file_ctx 100 4 (st_with (fc_log log_one)) =
       (Ret (- EINTR), (st_with (fc_log log_one))\<lparr>trace := [Mutex_lock_interruptible 5]\<rparr>)"
    by (simp add: env_intr_lock tr)
  from a b c d again stopped show ?thesis by simp
qed

text \<open>
  The claim as first stated fails: when the wait for the lock is interrupted, a read on
  an empty log returns \<open>-EINTR\<close>, not \<open>-ENODATA\<close>, and a read on a log that is not
  empty pops nothing: the context, with its log, is as before.
\<close>

theorem read_interrupted_counterexample:
  "head log_empty = tail log_empty
   \<and> fst (fscontext_read env_intr file_ctx 100 0 (st_with (fc_log log_empty))) = Ret (- EINTR)
   \<and> Ret (- EINTR) \<noteq> Ret (- ENODATA)
   \<and> head log_one \<noteq> tail log_one
   \<and> ctxs (snd (fscontext_read env_intr file_ctx 100 4 (st_with (fc_log log_one)))) 5 =
       Some (fc_log log_one)"
  by (simp add: fscontext_read_def Let_def emit_def st_with_def file_ctx_def env_intr_lock
      log_empty_def log_one_def EINTR_def ENODATA_def)

text \<open>
  C10. Release returns 0 every time. When the file holds a context, the first release
  stores \<^verbatim>\<open>NULL\<close> in the file's context pointer and then, after that store, calls
  \<^verbatim>\<open>put_fs_context\<close>. The pointer being \<^verbatim>\<open>NULL\<close>, a second release on the same file
  changes nothing: over the two calls \<^verbatim>\<open>put_fs_context\<close> is called exactly once when the
  file held a context, and not at all when it held none.
\<close>

theorem release_twice:
  "fscontext_release filp st = (r1, f1, st1) \<Longrightarrow>
   fscontext_release f1 st1 = (r2, f2, st2) \<Longrightarrow>
   r1 = 0 \<and> r2 = 0 \<and> private_data f1 = None \<and> f2 = f1 \<and> st2 = st1 \<and>
   trace st2 =
     trace st @ (case private_data filp of
                   Some fc \<Rightarrow> [Store_private_data None, Put_fs_context fc]
                 | None \<Rightarrow> [])"
proof -
  assume first: "fscontext_release filp st = (r1, f1, st1)"
    and second: "fscontext_release f1 st1 = (r2, f2, st2)"
  have cleared: "private_data f1 = None"
    using first by (auto simp: fscontext_release_def split: option.splits)
  with second have idle: "r2 = 0" "f2 = f1" "st2 = st1"
    by (simp_all add: fscontext_release_def)
  show ?thesis
  proof (cases "private_data filp")
    case None
    with first cleared idle show ?thesis by (simp add: fscontext_release_def)
  next
    case (Some fc)
    with first cleared idle show ?thesis by (auto simp: fscontext_release_def emit_def)
  qed
qed

theorem release_twice_witness:
  "fscontext_release file_ctx (st_with (fc_in FS_CONTEXT_FAILED)) =
     (0, file_ctx\<lparr>private_data := None\<rparr>,
      emit (Put_fs_context 5) (emit (Store_private_data None) (st_with (fc_in FS_CONTEXT_FAILED))))
   \<and> fscontext_release (file_ctx\<lparr>private_data := None\<rparr>)
        (emit (Put_fs_context 5)
           (emit (Store_private_data None) (st_with (fc_in FS_CONTEXT_FAILED)))) =
     (0, file_ctx\<lparr>private_data := None\<rparr>,
      emit (Put_fs_context 5) (emit (Store_private_data None) (st_with (fc_in FS_CONTEXT_FAILED))))
   \<and> trace (emit (Put_fs_context 5)
              (emit (Store_private_data None) (st_with (fc_in FS_CONTEXT_FAILED)))) =
       [Store_private_data None, Put_fs_context 5]"
proof -
  let ?st = "st_with (fc_in FS_CONTEXT_FAILED)"
  let ?f1 = "file_ctx\<lparr>private_data := None\<rparr>"
  let ?st1 = "emit (Put_fs_context 5) (emit (Store_private_data None) ?st)"
  have a: "fscontext_release file_ctx ?st = (0, ?f1, ?st1)"
    by (simp add: fscontext_release_def file_ctx_def)
  have b: "fscontext_release ?f1 ?st1 = (0, ?f1, ?st1)"
    by (simp add: fscontext_release_def)
  from release_twice [OF a b]
  have "trace ?st1 = trace ?st @ [Store_private_data None, Put_fs_context 5]"
    by (simp add: file_ctx_def)
  then have "trace ?st1 = [Store_private_data None, Put_fs_context 5]"
    by (simp add: st_with_def)
  with a b show ?thesis by simp
qed

end
